theory Spec2Isabelle
  imports Main
begin

section \<open>JavaScript values and JSX element trees\<close>

text \<open>
  A JSX element is a tag, its props (in the order written) and its children.
  \<^verbatim>\<open><Mail/>\<close> is \<open>Elem ''Mail'' [] []\<close>; React's \<^verbatim>\<open>key\<close> is kept among the props.
\<close>

datatype node = Elem (tag: string) (props: "(string \<times> string) list") (children: "node list")

text \<open>
  What \<^verbatim>\<open>getStatus\<close> can return: an object literal with string-valued properties, or
  \<^verbatim>\<open>undefined\<close> when the function body ends without a \<^verbatim>\<open>return\<close>.
\<close>

datatype js_value = JUndefined | JObject "(string \<times> string) list"

text \<open>
  A string-valued expression that may be \<^verbatim>\<open>undefined\<close> is a \<open>string option\<close>.
  JavaScript's truthiness on it: \<^verbatim>\<open>undefined\<close> and the empty string are falsy.
\<close>

definition truthy :: "string option \<Rightarrow> bool" where
  "truthy v = (case v of None \<Rightarrow> False | Some s \<Rightarrow> s \<noteq> [])"

text \<open>
  A child expression \<^verbatim>\<open>{e}\<close> whose value is \<^verbatim>\<open>undefined\<close> renders nothing; an array of
  children renders its defined members in order.
\<close>

definition jsx_child :: "node option \<Rightarrow> node list" where
  "jsx_child c = (case c of None \<Rightarrow> [] | Some n \<Rightarrow> [n])"

definition jsx_children :: "node option list \<Rightarrow> node list" where
  "jsx_children cs = concat (map jsx_child cs)"

definition key_of :: "node \<Rightarrow> string option" where
  "key_of e = map_of (props e) ''key''"

subsection \<open>Object.keys\<close>

text \<open>
  An object literal with string values is the list of its properties in the order they
  were written (keys distinct). \<^verbatim>\<open>Object.keys\<close> lists the keys that are array indices
  (the decimal numeral, without leading zeros, of an integer below \<open>2^32 - 1\<close>) first,
  in ascending numeric order, and then every other key in insertion order.
\<close>

definition digit_values :: "(char \<times> nat) list" where
  "digit_values =
     [(CHR ''0'', 0), (CHR ''1'', 1), (CHR ''2'', 2), (CHR ''3'', 3), (CHR ''4'', 4),
      (CHR ''5'', 5), (CHR ''6'', 6), (CHR ''7'', 7), (CHR ''8'', 8), (CHR ''9'', 9)]"

fun parse_digits :: "nat \<Rightarrow> string \<Rightarrow> nat option" where
  "parse_digits n [] = Some n"
| "parse_digits n (c # cs) =
     (case map_of digit_values c of
        None \<Rightarrow> None
      | Some d \<Rightarrow> parse_digits (10 * n + d) cs)"

definition array_index :: "string \<Rightarrow> nat option" where
  "array_index s =
     (case s of
        [] \<Rightarrow> None
      | c # cs \<Rightarrow>
          if c = CHR ''0'' \<and> cs \<noteq> [] then None
          else (case parse_digits 0 s of
                  None \<Rightarrow> None
                | Some n \<Rightarrow> if n < 4294967295 then Some n else None))"

definition index_value :: "string \<Rightarrow> nat" where
  "index_value s = (case array_index s of None \<Rightarrow> 0 | Some n \<Rightarrow> n)"

definition Object_keys :: "(string \<times> 'v) list \<Rightarrow> string list" where
  "Object_keys obj =
     (let ks = map fst obj
      in sort_key index_value (filter (\<lambda>k. array_index k \<noteq> None) ks)
         @ filter (\<lambda>k. array_index k = None) ks)"

text \<open>
  The keys of a literal whose value is a non-empty string, in the order written.
\<close>

definition populated_keys :: "(string \<times> string) list \<Rightarrow> string list" where
  "populated_keys sl = map fst (filter (\<lambda>p. snd p \<noteq> []) sl)"

section \<open>blog.config.ts\<close>

record route =
  route_name :: string
  route_value :: string

record header_cfg =
  logo :: string
  header_title :: string
  routes :: "route list"

record home_cfg =
  home_title :: string
  socials :: "(string \<times> string) list"

record blog_cfg =
  blog_title :: string
  blog_description :: string

record project_entry =
  name :: string
  description :: string
  href :: string
  github :: string
  status :: string

record project_cfg =
  project_title :: string
  project_description :: string
  projects :: "project_entry list"

record comment_cfg =
  comment_enabled :: bool
  comment_engine :: string

record search_cfg =
  search_enabled :: bool
  search_engine :: string

record footer_cfg =
  isShow :: bool
  isShowPoweredBy :: bool

text \<open>
  The configuration object. The \<^verbatim>\<open>intro\<close> component reference of \<^verbatim>\<open>home\<close> and the
  provider settings nested in \<^verbatim>\<open>comment\<close> (giscus, utterances) are left out: nothing
  modelled here reads them. \<^verbatim>\<open>project.getStatus\<close> is the function \<open>getStatus\<close> below.
\<close>

record site_data =
  author :: string
  title :: string
  site_description :: string
  theme :: string
  language :: string
  githubRepo :: string
  header :: header_cfg
  home :: home_cfg
  blog :: blog_cfg
  project :: project_cfg
  comment :: comment_cfg
  search :: search_cfg
  footer :: footer_cfg

text \<open>
  \<^verbatim>\<open>getStatus: (status: string) => { if (!status) return {}; switch (status) {...} }\<close>
  The argument is \<open>None\<close> when the caller passes nothing. The \<^verbatim>\<open>switch\<close> has four cases
  and no \<^verbatim>\<open>default\<close>: on any other string the function body ends and the call yields
  \<^verbatim>\<open>undefined\<close>.
\<close>

definition getStatus :: "string option \<Rightarrow> js_value" where
  "getStatus st =
     (if \<not> truthy st then JObject []
      else if st = Some ''active'' then
        JObject [(''variant'', ''default''), (''text'', ''ACTIVE'')]
      else if st = Some ''dev'' then
        JObject [(''variant'', ''secondary''), (''text'', ''DEV'')]
      else if st = Some ''filed'' then
        JObject [(''variant'', ''outline''), (''text'', ''FILED'')]
      else if st = Some ''offline'' then
        JObject [(''variant'', ''destructive''), (''text'', ''OFFLINE'')]
      else JUndefined)"

definition config_socials :: "(string \<times> string) list" where
  "config_socials =
     [(''email'', ''vinigurskiferraz@gmail.com''),
      (''github'', ''https://github.com/viniciusf-dev''),
      (''twitter'', ''''),
      (''linkedin'', ''https://www.linkedin.com/in/viniciusgferraz/''),
      (''facebook'', ''''),
      (''instagram'', ''''),
      (''youtube'', '''')]"

definition config_projects :: "project_entry list" where
  "config_projects =
     [\<lparr>name = ''Nebulla'',
       description = ''A lightweight, high-performance text embedding model implemented in Rust.'',
       href = ''https://github.com/viniciusf-dev/nebulla'',
       github = ''https://github.com/viniciusf-dev/nebulla'',
       status = ''active''\<rparr>,
      \<lparr>name = ''Why It Sucks'',
       description = ''Discover why some games are so bad with the power of Generative AI.'',
       href = ''https://why-it-sucks.vercel.app/'',
       github = ''https://github.com/viniciusf-dev/WhyItSucks'',
       status = ''active''\<rparr>,
      \<lparr>name = ''Poetries By Markov'',
       description = ''A sophisticated non-LLM-based poetry generator that uses Markov chains to create original poems.'',
       href = ''https://github.com/viniciusf-dev/poetries-by-markov'',
       github = ''https://github.com/viniciusf-dev/poetries-by-markov'',
       status = ''active''\<rparr>,
      \<lparr>name = ''Smart.Notes'',
       description = ''A fullstack AI application that receives videoclasses in audio format and convert them into smart summaries and questions to improve study.'',
       href = ''https://smart-notes-phi.vercel.app/'',
       github = ''https://github.com/ViniciusTheCoder/smart.notes'',
       status = ''dev''\<rparr>,
      \<lparr>name = ''LangchainGPT'',
       description = ''An chatbot interface integrated to OpenAI API to build your own base-knowledgment AI, made with React, Next, Node, Typescript & Tailwind.'',
       href = ''https://github.com/ViniciusTheCoder/LangChainGPT'',
       github = ''https://github.com/ViniciusTheCoder/LangChainGPT'',
       status = ''filed''\<rparr>,
      \<lparr>name = ''MelodyMover'',
       description = ''An web interface to convert music playlists between different music apps.'',
       href = ''https://github.com/ViniciusTheCoder/melody-mover'',
       github = ''https://github.com/ViniciusTheCoder/melody-mover'',
       status = ''dev''\<rparr>,
      \<lparr>name = ''AppKawa'',
       description = ''An mobile app to track customer returnals and organizate events.'',
       href = ''https://github.com/ViniciusTheCoder/AppKawa'',
       github = ''https://github.com/ViniciusTheCoder/AppKawa'',
       status = ''filed''\<rparr>,
      \<lparr>name = ''Decoding Gamer Emotions'',
       description = ''Sentiment Analysis of Game Reviews with Large Language Models.'',
       href = ''https://github.com/ViniciusTheCoder'',
       github = '''',
       status = ''dev''\<rparr>,
      \<lparr>name = ''VegMaromba'',
       description = ''Website to check vegan supplements'',
       href = ''https://github.com/ViniciusTheCoder/VegMaromba'',
       github = ''https://github.com/ViniciusTheCoder/VegMaromba'',
       status = ''filed''\<rparr>,
      \<lparr>name = ''RentX'',
       description = ''Mobile app developed in React Native (available for iOS and Android) to rent cars'',
       href = ''https://github.com/ViniciusTheCoder/RentX'',
       github = ''https://github.com/ViniciusTheCoder/RentX'',
       status = ''filed''\<rparr>,
      \<lparr>name = ''RentX API'',
       description = ''API that runs as a backend in the RentX app, this API list all the cars available in the catalog'',
       href = ''https://github.com/ViniciusTheCoder/RentX-api'',
       github = ''https://github.com/ViniciusTheCoder/RentX-api'',
       status = ''filed''\<rparr>,
      \<lparr>name = ''GoFinance'',
       description = ''Mobile app developed in React Native (available for iOS and Android) to control your bank accounts and transactions'',
       href = ''https://github.com/ViniciusTheCoder/finances_mobile.app'',
       github = ''https://github.com/ViniciusTheCoder/finances_mobile.app'',
       status = ''filed''\<rparr>]"

definition siteData :: site_data where
  "siteData =
     \<lparr>author = ''Vinicius Gurski Ferraz'',
      title = ''Vinicius.Dev'',
      site_description = ''A minimalist blog created with Next.js ,Shadcn-ui and Tailwind.css to publish my articles and projects'',
      theme = ''dark'',
      language = ''en'',
      githubRepo = ''https://github.com/viniciusf-dev'',
      header = \<lparr>logo = ''/logo.png'', header_title = ''Vinicius.Dev'',
                 routes = [\<lparr>route_name = ''Blog'', route_value = ''/blog''\<rparr>,
                           \<lparr>route_name = ''Projects'', route_value = ''/project''\<rparr>]\<rparr>,
      home = \<lparr>home_title = ''Welcome to Vinicius.Dev'', socials = config_socials\<rparr>,
      blog = \<lparr>blog_title = ''My Blog'',
               blog_description = ''Some texts about stuff that I like''\<rparr>,
      project = \<lparr>project_title = ''Look what I've done'',
                  project_description = ''Some small tools made by myself'',
                  projects = config_projects\<rparr>,
      comment = \<lparr>comment_enabled = False, comment_engine = ''giscus''\<rparr>,
      search = \<lparr>search_enabled = True, search_engine = ''cmdk''\<rparr>,
      footer = \<lparr>isShow = True, isShowPoweredBy = True\<rparr>\<rparr>"

section \<open>components/social-list.tsx\<close>

text \<open>
  The icon table. \<^verbatim>\<open>icons[item]\<close> is the lookup among the table's own three keys; for
  any other platform name it is \<^verbatim>\<open>undefined\<close>.
\<close>

definition icons :: "(string \<times> node) list" where
  "icons =
     [(''email'', Elem ''Mail'' [] []),
      (''github'', Elem ''Github'' [] []),
      (''linkedin'', Elem ''Linkedin'' [] [])]"

text \<open>
  The callback of \<^verbatim>\<open>Object.keys(socials).map((item) => ...)\<close>: an element when
  \<^verbatim>\<open>socials[item]\<close> is truthy, \<^verbatim>\<open>undefined\<close> otherwise.
\<close>

definition SocialList_item :: "(string \<times> string) list \<Rightarrow> string \<Rightarrow> node option" where
  "SocialList_item sl item =
     (case map_of sl item of
        None \<Rightarrow> None
      | Some url \<Rightarrow>
          if \<not> truthy (Some url) then None
          else Some (Elem ''div''
                 [(''className'', ''hover:scale-110 duration-200''), (''key'', item)]
                 [if item = ''email''
                  then Elem ''Link'' [(''href'', ''mailto:'' @ url)] (jsx_child (map_of icons item))
                  else Elem ''Link'' [(''href'', url)] (jsx_child (map_of icons item))]))"

definition SocialList_entries :: "(string \<times> string) list \<Rightarrow> node list" where
  "SocialList_entries sl = jsx_children (map (SocialList_item sl) (Object_keys sl))"

text \<open>
  The component. \<^verbatim>\<open>cn\<close> (from \<^verbatim>\<open>@/lib/utils\<close>) builds the class string of the outer
  element from a base class and flagged classes; it is a parameter here.
\<close>

definition SocialList ::
  "(string \<Rightarrow> (string \<times> bool) list \<Rightarrow> string) \<Rightarrow> bool \<Rightarrow> site_data \<Rightarrow> node" where
  "SocialList cn isFooter sd =
     Elem ''div''
       [(''className'',
         cn ''flex items-center space-x-8'' [(''mt-8'', \<not> isFooter), (''scale-75'', isFooter)])]
       (SocialList_entries (socials (home sd)))"

section \<open>The home page\<close>

definition Home_icons :: "(string \<times> node) list" where
  "Home_icons = [(''email'', Elem ''Mail'' [] []), (''linkedin'', Elem ''Linkedin'' [] [])]"

text \<open>
  The home page maps over the same keys and returns \<^verbatim>\<open><div></div>\<close> for a truthy
  value. The module's icon table is passed explicitly, so that what the rendering does
  with it can be stated.
\<close>

definition Home_item :: "(string \<times> node) list \<Rightarrow> (string \<times> string) list \<Rightarrow> string \<Rightarrow> node option" where
  "Home_item tbl sl item = (if truthy (map_of sl item) then Some (Elem ''div'' [] []) else None)"

definition Home_entries :: "(string \<times> node) list \<Rightarrow> (string \<times> string) list \<Rightarrow> node list" where
  "Home_entries tbl sl = jsx_children (map (Home_item tbl sl) (Object_keys sl))"

text \<open>
  The fragment returned by \<^verbatim>\<open>Home\<close>. \<^verbatim>\<open>home.description\<close> does not exist in the
  configuration, so \<^verbatim>\<open>Title\<close> receives only \<^verbatim>\<open>title\<close>.
\<close>

definition Home :: "(string \<times> node) list \<Rightarrow> site_data \<Rightarrow> node list" where
  "Home tbl sd =
     [Elem ''Title'' [(''title'', home_title (home sd))] [],
      Elem ''Intro'' [] [],
      Elem ''div'' [(''className'', ''mt-8 flex items-center space-x-4'')]
        (Home_entries tbl (socials (home sd)))]"

fun mentions :: "string list \<Rightarrow> node \<Rightarrow> bool" where
  "mentions tags (Elem t ps cs) = (t \<in> set tags \<or> list_ex (mentions tags) cs)"

section \<open>Content documents\<close>

text \<open>
  The front matter of a post; \<open>draft = None\<close> when the block has no \<^verbatim>\<open>draft\<close> line.
\<close>

record post =
  post_title :: string
  summary :: string
  date :: string
  tags :: "string list"
  draft :: "bool option"

text \<open>
  Modelled from the spec: the code that reads a post's \<^verbatim>\<open>draft\<close> field is not part of
  the sources at hand (only the posts' front matter is). The spec gives \<^verbatim>\<open>draft\<close> the
  default \<^verbatim>\<open>false\<close>.
\<close>

definition is_draft :: "post \<Rightarrow> bool" where
  "is_draft p = (case draft p of None \<Rightarrow> False | Some b \<Rightarrow> b)"

text \<open>
  Modelled from the spec: the code that lists published posts is not part of the
  sources at hand. The spec excludes drafts from every published listing and includes
  every other post.
\<close>

definition published_listing :: "post list \<Rightarrow> post list" where
  "published_listing ps = filter (\<lambda>p. \<not> is_draft p) ps"

definition context_caching :: post where
  "context_caching =
     \<lparr>post_title = ''Context Caching in LLMs'',
      summary = ''Cache input tokens and consult them for subsequent requests.'',
      date = ''2024-07-05'',
      tags = [''Context Caching'', ''Gemini'', ''Tokens'', ''Prompt''],
      draft = Some False\<rparr>"

definition python_concurrency :: post where
  "python_concurrency =
     \<lparr>post_title = ''Python ThreadPoolExecutor and Concurrency: The Complete Guide'',
      summary = ''ThreadPoolExecutor is part of Python's `concurrent.futures` module, which was introduced in Python 3.2. It provides a high-level interface for asynchronously executing callables.'',
      date = ''2025-04-03'',
      tags = [''Parallel Programming'', ''I/O Bound'', ''CPU Bound''],
      draft = Some False\<rparr>"

definition rost_for_llms :: post where
  "rost_for_llms =
     \<lparr>post_title = ''Rust for Blazing-Fast LLM Applications'',
      summary = ''Python's great for prototyping and has amazing libraries like Hugging Face's Transformers, but when performance matters, Rust shines.'',
      date = ''2025-04-09'',
      tags = [''Rust'', ''GenerativeAI'', ''Concurrency'', ''LLMs''],
      draft = Some False\<rparr>"

definition uncovering_the_needle :: post where
  "uncovering_the_needle =
     \<lparr>post_title = ''Uncovering The Needle'',
      summary = ''In the LLM world, 'needle in a haystack' refers to the challenge of finding specific, accurate information within the vast amount of data these models have been trained on.'',
      date = ''2025-03-10'',
      tags = [''AI Engineering'', ''LLM Accuracy'', ''Needle In a Haystack'', ''Machine Learning'',
              ''Generative AI'', ''Benchmarks''],
      draft = Some False\<rparr>"

definition rag_performance :: post where
  "rag_performance =
     \<lparr>post_title = ''How to improve your RAG performance?'',
      summary = ''When building a RAG application, it's very common to face low accuracy at the beginning. To overcome this issue, techniques such as prompt engineering, filtered search, score extractor and more are mandatory to reach performances above 80%.'',
      date = ''2024-10-23'',
      tags = [''RAG Performance'', ''Accuracy'', ''Prompt Engineering'', ''Benchmarks''],
      draft = Some False\<rparr>"

definition posts :: "post list" where
  "posts =
     [context_caching, python_concurrency, rost_for_llms, uncovering_the_needle,
      rag_performance]"

section \<open>Facts about the embedding\<close>

subsection \<open>Object.keys\<close>

lemma set_Object_keys: "set (Object_keys obj) = fst ` set obj"
  by (auto simp: Object_keys_def Let_def)

lemma distinct_Object_keys: "distinct (map fst obj) \<Longrightarrow> distinct (Object_keys obj)"
  by (auto simp: Object_keys_def Let_def)

lemma Object_keys_no_index:
  "\<forall>k \<in> set (map fst obj). array_index k = None \<Longrightarrow> Object_keys obj = map fst obj"
  by (simp add: Object_keys_def Let_def)

lemma length_filter_Object_keys:
  "length (filter P (Object_keys obj)) = length (filter P (map fst obj))"
proof -
  let ?ks = "map fst obj"
  let ?Q = "\<lambda>k. array_index k \<noteq> None"
  have "length (filter P (filter ?Q ?ks)) + length (filter P (filter (\<lambda>k. \<not> ?Q k) ?ks))
        = length (filter P ?ks)"
    by (induction obj) auto
  then show ?thesis
    by (simp add: Object_keys_def Let_def filter_sort)
qed

lemma count_list_distinct: "distinct ks \<Longrightarrow> count_list ks k = (if k \<in> set ks then 1 else 0)"
  by (induction ks) auto

lemma count_Object_keys:
  assumes "distinct (map fst sl)" and "map_of sl k = Some v"
  shows "count_list (Object_keys sl) k = 1"
proof -
  have "k \<in> fst ` set sl"
    using assms(2) by (metis map_of_SomeD fst_conv image_eqI)
  then show ?thesis
    using assms(1) by (simp add: count_list_distinct distinct_Object_keys set_Object_keys)
qed

lemma truthy_filter_keys:
  assumes "distinct (map fst sl)"
  shows "filter (\<lambda>k. truthy (map_of sl k)) (map fst sl) = populated_keys sl"
proof -
  have "filter (\<lambda>k. truthy (map_of sl k)) (map fst sl)
        = map fst (filter (\<lambda>p. truthy (map_of sl (fst p))) sl)"
    by (simp add: filter_map comp_def)
  also have "filter (\<lambda>p. truthy (map_of sl (fst p))) sl = filter (\<lambda>p. snd p \<noteq> []) sl"
    using assms by (intro filter_cong) (auto simp: truthy_def)
  finally show ?thesis by (simp add: populated_keys_def)
qed

subsection \<open>The social-icon list\<close>

lemma SocialList_children:
  "children (SocialList cn isFooter sd) = SocialList_entries (socials (home sd))"
  by (simp add: SocialList_def)

text \<open>The keys of the rendered entries, for any list of keys mapped over.\<close>

lemma keys_of_items:
  "map key_of (jsx_children (map (SocialList_item sl) ks))
   = map Some (filter (\<lambda>k. truthy (map_of sl k)) ks)"
  by (induction ks)
     (auto simp: jsx_children_def jsx_child_def SocialList_item_def key_of_def truthy_def
           split: option.splits)

text \<open>The rendered entries that carry a given key: one copy per occurrence of the key.\<close>

lemma entries_for_key:
  "filter (\<lambda>e. key_of e = Some k) (jsx_children (map (SocialList_item sl) ks))
   = (case map_of sl k of
        None \<Rightarrow> []
      | Some v \<Rightarrow>
          if v = [] then []
          else replicate (count_list ks k)
                 (Elem ''div'' [(''className'', ''hover:scale-110 duration-200''), (''key'', k)]
                    [Elem ''Link'' [(''href'', if k = ''email'' then ''mailto:'' @ v else v)]
                       (jsx_child (map_of icons k))]))"
  by (induction ks)
     (auto simp: jsx_children_def SocialList_item_def key_of_def truthy_def jsx_child_def
           split: option.splits)

lemma single_entry_for_key:
  assumes "distinct (map fst sl)" and "map_of sl k = Some v" and "v \<noteq> []"
  shows "filter (\<lambda>e. key_of e = Some k) (SocialList_entries sl)
         = [Elem ''div'' [(''className'', ''hover:scale-110 duration-200''), (''key'', k)]
              [Elem ''Link'' [(''href'', if k = ''email'' then ''mailto:'' @ v else v)]
                 (jsx_child (map_of icons k))]]"
  using assms count_Object_keys [OF assms(1,2)]
  by (simp add: SocialList_entries_def entries_for_key)

lemma length_entries:
  assumes "distinct (map fst sl)"
  shows "length (SocialList_entries sl) = length (populated_keys sl)"
proof -
  have "length (SocialList_entries sl) = length (map key_of (SocialList_entries sl))"
    by simp
  also have "\<dots> = length (filter (\<lambda>k. truthy (map_of sl k)) (Object_keys sl))"
    unfolding SocialList_entries_def keys_of_items by simp
  also have "\<dots> = length (filter (\<lambda>k. truthy (map_of sl k)) (map fst sl))"
    by (rule length_filter_Object_keys)
  finally show ?thesis
    by (simp add: truthy_filter_keys [OF assms])
qed

text \<open>
  The rendered order is the order of \<^verbatim>\<open>Object.keys\<close>, whatever the keys are.
\<close>

lemma rendered_order_is_Object_keys_order:
  "map key_of (SocialList_entries sl)
   = map Some (filter (\<lambda>k. truthy (map_of sl k)) (Object_keys sl))"
  by (simp add: SocialList_entries_def keys_of_items)

text \<open>The example of the specification: the empty \<^verbatim>\<open>github\<close> entry is left out.\<close>

lemma SocialList_entries_example:
  "SocialList_entries [(''email'', ''a@b.com''), (''github'', []), (''linkedin'', ''https://x'')]
   = [Elem ''div'' [(''className'', ''hover:scale-110 duration-200''), (''key'', ''email'')]
        [Elem ''Link'' [(''href'', ''mailto:a@b.com'')] [Elem ''Mail'' [] []]],
      Elem ''div'' [(''className'', ''hover:scale-110 duration-200''), (''key'', ''linkedin'')]
        [Elem ''Link'' [(''href'', ''https://x'')] [Elem ''Linkedin'' [] []]]]"
  by (simp add: SocialList_entries_def SocialList_item_def Object_keys_def array_index_def
        digit_values_def jsx_children_def jsx_child_def truthy_def icons_def)

subsection \<open>The home page\<close>

lemma Home_entries_replicate:
  "jsx_children (map (Home_item tbl sl) ks)
   = replicate (length (filter (\<lambda>k. truthy (map_of sl k)) ks)) (Elem ''div'' [] [])"
  by (induction ks) (auto simp: jsx_children_def jsx_child_def Home_item_def)

lemma Home_ignores_icon_table: "Home tbl sd = Home tbl' sd"
  by (simp add: Home_def Home_entries_def Home_entries_replicate)

subsection \<open>getStatus outside the four recognised values\<close>

lemma getStatus_absent: "getStatus None = JObject []" "getStatus (Some []) = JObject []"
  by (simp_all add: getStatus_def truthy_def)

lemma getStatus_unrecognised:
  assumes "s \<noteq> []" and "s \<notin> set [''active'', ''dev'', ''filed'', ''offline'']"
  shows "getStatus (Some s) = JUndefined"
  using assms by (simp add: getStatus_def truthy_def)

text \<open>The badge of each configured project, in the order of the list.\<close>

lemma configured_projects_badges:
  "map (\<lambda>p. getStatus (Some (status p))) (projects (project siteData))
   = [JObject [(''variant'', ''default''), (''text'', ''ACTIVE'')],
      JObject [(''variant'', ''default''), (''text'', ''ACTIVE'')],
      JObject [(''variant'', ''default''), (''text'', ''ACTIVE'')],
      JObject [(''variant'', ''secondary''), (''text'', ''DEV'')],
      JObject [(''variant'', ''outline''), (''text'', ''FILED'')],
      JObject [(''variant'', ''secondary''), (''text'', ''DEV'')],
      JObject [(''variant'', ''outline''), (''text'', ''FILED'')],
      JObject [(''variant'', ''secondary''), (''text'', ''DEV'')],
      JObject [(''variant'', ''outline''), (''text'', ''FILED'')],
      JObject [(''variant'', ''outline''), (''text'', ''FILED'')],
      JObject [(''variant'', ''outline''), (''text'', ''FILED'')],
      JObject [(''variant'', ''outline''), (''text'', ''FILED'')]]"
  by (simp add: siteData_def config_projects_def getStatus_def truthy_def)

section \<open>The status-badge mapper\<close>

text \<open>
  C1. For each of the four status values \<^verbatim>\<open>active\<close>, \<^verbatim>\<open>dev\<close>, \<^verbatim>\<open>filed\<close> and \<^verbatim>\<open>offline\<close>,
  \<^verbatim>\<open>getStatus\<close> returns exactly the documented object: \<^verbatim>\<open>active\<close> gives variant
  \<^verbatim>\<open>default\<close> and text \<^verbatim>\<open>ACTIVE\<close>, \<^verbatim>\<open>dev\<close> gives \<^verbatim>\<open>secondary\<close> and \<^verbatim>\<open>DEV\<close>, \<^verbatim>\<open>filed\<close> gives
  \<^verbatim>\<open>outline\<close> and \<^verbatim>\<open>FILED\<close>, \<^verbatim>\<open>offline\<close> gives \<^verbatim>\<open>destructive\<close> and \<^verbatim>\<open>OFFLINE\<close>.
\<close>

theorem getStatus_documented_pairs:
  "getStatus (Some ''active'') = JObject [(''variant'', ''default''), (''text'', ''ACTIVE'')]
   \<and> getStatus (Some ''dev'') = JObject [(''variant'', ''secondary''), (''text'', ''DEV'')]
   \<and> getStatus (Some ''filed'') = JObject [(''variant'', ''outline''), (''text'', ''FILED'')]
   \<and> getStatus (Some ''offline'') =
       JObject [(''variant'', ''destructive''), (''text'', ''OFFLINE'')]"
  by (simp add: getStatus_def truthy_def)

text \<open>
  C2. The claim is that every status outside the four recognised values, absent, empty
  or an unrecognised non-empty string, gives the empty object \<^verbatim>\<open>{}\<close> and no error. The
  guard \<^verbatim>\<open>if (!status) return {}\<close> does so for an absent or empty status
  (\<open>getStatus_absent\<close>). An unrecognised non-empty string passes the guard, matches no
  \<^verbatim>\<open>case\<close>, and the \<^verbatim>\<open>switch\<close> has no \<^verbatim>\<open>default\<close>: at \<^verbatim>\<open>"archived"\<close> the call yields
  \<^verbatim>\<open>undefined\<close>, which is not the empty object.
\<close>

theorem getStatus_archived_undefined:
  "getStatus (Some ''archived'') = JUndefined \<and> getStatus (Some ''archived'') \<noteq> JObject []"
  by (simp add: getStatus_def truthy_def)

text \<open>
  C10. Every entry of the configured \<^verbatim>\<open>project.projects\<close> list has a status among
  \<^verbatim>\<open>active\<close>, \<^verbatim>\<open>dev\<close>, \<^verbatim>\<open>filed\<close> and \<^verbatim>\<open>offline\<close>, and \<^verbatim>\<open>getStatus\<close> applied to it returns an
  object with a variant and a text.
\<close>

theorem configured_projects_have_recognised_status:
  "list_all (\<lambda>p. status p \<in> set [''active'', ''dev'', ''filed'', ''offline'']
              \<and> (\<exists>variant text. getStatus (Some (status p))
                     = JObject [(''variant'', variant), (''text'', text)]))
     (projects (project siteData))"
  by (simp add: siteData_def config_projects_def getStatus_def truthy_def)

section \<open>The social-icon list renderer\<close>

text \<open>
  C3. For every socials mapping, the rendered list holds exactly one entry for each key
  whose value is a non-empty string and none for a key whose value is empty or that is
  absent; in all it has as many entries as there are keys with a non-empty value. The
  rendering is a total function: an empty value is skipped, nothing fails.
\<close>

theorem SocialList_one_entry_per_populated_key:
  assumes "distinct (map fst sl)"
  shows "length (filter (\<lambda>e. key_of e = Some k) (SocialList_entries sl))
           = (case map_of sl k of None \<Rightarrow> 0 | Some v \<Rightarrow> if v = [] then 0 else 1)
         \<and> length (SocialList_entries sl) = length (populated_keys sl)"
proof -
  have "length (filter (\<lambda>e. key_of e = Some k) (SocialList_entries sl))
          = (case map_of sl k of None \<Rightarrow> 0 | Some v \<Rightarrow> if v = [] then 0 else 1)"
  proof (cases "map_of sl k")
    case None
    then show ?thesis
      by (simp add: SocialList_entries_def entries_for_key)
  next
    case (Some v)
    then show ?thesis
      using count_Object_keys [OF assms Some]
      by (simp add: SocialList_entries_def entries_for_key)
  qed
  then show ?thesis
    using length_entries [OF assms] by simp
qed

theorem SocialList_one_entry_per_populated_key_witness:
  "distinct (map fst [(''email'', ''a@b.com''), (''github'', []), (''linkedin'', ''https://x'')])
   \<and> length (filter (\<lambda>e. key_of e = Some ''email'')
        (SocialList_entries
           [(''email'', ''a@b.com''), (''github'', []), (''linkedin'', ''https://x'')])) = 1
   \<and> length (filter (\<lambda>e. key_of e = Some ''github'')
        (SocialList_entries
           [(''email'', ''a@b.com''), (''github'', []), (''linkedin'', ''https://x'')])) = 0
   \<and> length (filter (\<lambda>e. key_of e = Some ''twitter'')
        (SocialList_entries
           [(''email'', ''a@b.com''), (''github'', []), (''linkedin'', ''https://x'')])) = 0
   \<and> length (SocialList_entries
        [(''email'', ''a@b.com''), (''github'', []), (''linkedin'', ''https://x'')]) = 2"
proof -
  let ?sl = "[(''email'', ''a@b.com''), (''github'', []), (''linkedin'', ''https://x'')]"
  have d: "distinct (map fst ?sl)" by simp
  show ?thesis
    using d SocialList_one_entry_per_populated_key [OF d, of "''email''"]
      SocialList_one_entry_per_populated_key [OF d, of "''github''"]
      SocialList_one_entry_per_populated_key [OF d, of "''twitter''"]
    by (simp add: populated_keys_def)
qed

text \<open>
  C4. A key with a non-empty value renders one entry, a link: for the key \<^verbatim>\<open>email\<close> its
  \<^verbatim>\<open>href\<close> is the value prefixed with \<^verbatim>\<open>mailto:\<close>, for every other key its \<^verbatim>\<open>href\<close> is
  exactly the stored value.
\<close>

theorem SocialList_email_mailto_others_direct:
  assumes "distinct (map fst sl)" and "map_of sl k = Some v" and "v \<noteq> []"
  shows "filter (\<lambda>e. key_of e = Some k) (SocialList_entries sl)
         = [Elem ''div'' [(''className'', ''hover:scale-110 duration-200''), (''key'', k)]
              [Elem ''Link'' [(''href'', if k = ''email'' then ''mailto:'' @ v else v)]
                 (jsx_child (map_of icons k))]]"
  by (rule single_entry_for_key [OF assms])

theorem SocialList_email_mailto_others_direct_witness:
  "filter (\<lambda>e. key_of e = Some ''email'') (SocialList_entries config_socials)
     = [Elem ''div'' [(''className'', ''hover:scale-110 duration-200''), (''key'', ''email'')]
          [Elem ''Link'' [(''href'', ''mailto:vinigurskiferraz@gmail.com'')] [Elem ''Mail'' [] []]]]
   \<and> filter (\<lambda>e. key_of e = Some ''linkedin'') (SocialList_entries config_socials)
     = [Elem ''div'' [(''className'', ''hover:scale-110 duration-200''), (''key'', ''linkedin'')]
          [Elem ''Link'' [(''href'', ''https://www.linkedin.com/in/viniciusgferraz/'')]
             [Elem ''Linkedin'' [] []]]]"
proof -
  have d: "distinct (map fst config_socials)"
    by (simp add: config_socials_def)
  have e: "map_of config_socials ''email'' = Some ''vinigurskiferraz@gmail.com''"
    by (simp add: config_socials_def)
  have l: "map_of config_socials ''linkedin''
             = Some ''https://www.linkedin.com/in/viniciusgferraz/''"
    by (simp add: config_socials_def)
  show ?thesis
    using SocialList_email_mailto_others_direct [OF d e]
      SocialList_email_mailto_others_direct [OF d l]
    by (simp add: icons_def jsx_child_def)
qed

text \<open>
  C5. The claim is that, for every socials mapping, the rendered entries follow the
  insertion order of the keys of the literal, restricted to the keys with a non-empty
  value. The rendering follows \<^verbatim>\<open>Object.keys\<close>, which puts array-index keys first, in
  numeric order. So the claim holds as amended: for every socials mapping none of whose
  keys is an array index (every mapping over the platform names is one), the rendered
  entries follow the insertion order of the keys with a non-empty value.
\<close>

theorem SocialList_order_is_insertion_order:
  assumes "distinct (map fst sl)" and "\<forall>k \<in> set (map fst sl). array_index k = None"
  shows "map key_of (SocialList_entries sl) = map Some (populated_keys sl)"
  unfolding SocialList_entries_def keys_of_items Object_keys_no_index [OF assms(2)]
  by (simp add: truthy_filter_keys [OF assms(1)])

theorem SocialList_order_is_insertion_order_witness:
  "distinct (map fst config_socials)
   \<and> list_all (\<lambda>k. array_index k = None) (map fst config_socials)
   \<and> map key_of (SocialList_entries config_socials)
       = [Some ''email'', Some ''github'', Some ''linkedin'']"
proof -
  have d: "distinct (map fst config_socials)"
    by (simp add: config_socials_def)
  have n: "\<forall>k \<in> set (map fst config_socials). array_index k = None"
    by (simp add: config_socials_def array_index_def digit_values_def)
  have "map Some (populated_keys config_socials)
          = [Some ''email'', Some ''github'', Some ''linkedin'']"
    by (simp add: populated_keys_def config_socials_def)
  then show ?thesis
    using d n SocialList_order_is_insertion_order [OF d n]
    by (simp add: list_all_iff)
qed

text \<open>
  The claim as stated fails on a literal with an array-index key: in
  \<^verbatim>\<open>{github: "https://github.com/x", 1: "https://example.com"}\<close> the key \<^verbatim>\<open>1\<close> is written
  second and rendered first.
\<close>

theorem SocialList_order_counterexample:
  "distinct (map fst [(''github'', ''https://github.com/x''), (''1'', ''https://example.com'')])
   \<and> map key_of (SocialList_entries
         [(''github'', ''https://github.com/x''), (''1'', ''https://example.com'')])
       = [Some ''1'', Some ''github'']
   \<and> map Some (populated_keys
         [(''github'', ''https://github.com/x''), (''1'', ''https://example.com'')])
       = [Some ''github'', Some ''1'']
   \<and> map key_of (SocialList_entries
         [(''github'', ''https://github.com/x''), (''1'', ''https://example.com'')])
       \<noteq> map Some (populated_keys
             [(''github'', ''https://github.com/x''), (''1'', ''https://example.com'')])"
  by (simp add: SocialList_entries_def SocialList_item_def Object_keys_def array_index_def
        digit_values_def index_value_def jsx_children_def jsx_child_def key_of_def truthy_def
        populated_keys_def)

text \<open>
  C6. The icon table of the social-icon list has exactly the keys \<^verbatim>\<open>email\<close>, \<^verbatim>\<open>github\<close>
  and \<^verbatim>\<open>linkedin\<close>. A non-empty value under one of the other platform keys (\<^verbatim>\<open>twitter\<close>,
  \<^verbatim>\<open>facebook\<close>, \<^verbatim>\<open>instagram\<close>, \<^verbatim>\<open>youtube\<close>) is rendered as a link to the value with no
  icon inside.
\<close>

theorem SocialList_no_icon_for_other_platforms:
  assumes "distinct (map fst sl)"
    and "k \<in> set [''twitter'', ''facebook'', ''instagram'', ''youtube'']"
    and "map_of sl k = Some v" and "v \<noteq> []"
  shows "map fst icons = [''email'', ''github'', ''linkedin'']
         \<and> filter (\<lambda>e. key_of e = Some k) (SocialList_entries sl)
             = [Elem ''div'' [(''className'', ''hover:scale-110 duration-200''), (''key'', k)]
                  [Elem ''Link'' [(''href'', v)] []]]"
proof -
  have "map_of icons k = None" and "k \<noteq> ''email''"
    using assms(2) by (auto simp: icons_def)
  then show ?thesis
    using single_entry_for_key [OF assms(1,3,4)]
    by (simp add: jsx_child_def icons_def)
qed

theorem SocialList_no_icon_for_other_platforms_witness:
  "map fst icons = [''email'', ''github'', ''linkedin'']
   \<and> filter (\<lambda>e. key_of e = Some ''twitter'')
        (SocialList_entries [(''email'', ''a@b.com''), (''twitter'', ''https://twitter.com/x'')])
       = [Elem ''div'' [(''className'', ''hover:scale-110 duration-200''), (''key'', ''twitter'')]
            [Elem ''Link'' [(''href'', ''https://twitter.com/x'')] []]]"
proof -
  let ?sl = "[(''email'', ''a@b.com''), (''twitter'', ''https://twitter.com/x'')]"
  have d: "distinct (map fst ?sl)" by simp
  have k: "''twitter'' \<in> set [''twitter'', ''facebook'', ''instagram'', ''youtube'']" by simp
  have v: "map_of ?sl ''twitter'' = Some ''https://twitter.com/x''" by simp
  have n: "''https://twitter.com/x'' \<noteq> []" by simp
  show ?thesis
    by (rule SocialList_no_icon_for_other_platforms [OF d k v n])
qed

section \<open>The home page renderer\<close>

text \<open>
  C9. For every social key with a non-empty value the home page renders an empty
  \<^verbatim>\<open>div\<close>: the rendered children are that many empty elements, with no link and no icon
  anywhere in them. The result is the same whatever the icon table holds, and the
  module's table has only the keys \<^verbatim>\<open>email\<close> and \<^verbatim>\<open>linkedin\<close>.
\<close>

theorem Home_renders_empty_placeholders:
  assumes "distinct (map fst sl)"
  shows "Home_entries tbl sl = replicate (length (populated_keys sl)) (Elem ''div'' [] [])
         \<and> \<not> list_ex (mentions [''Link'', ''a'', ''Mail'', ''Github'', ''Linkedin''])
               (Home_entries tbl sl)
         \<and> Home_entries tbl sl = Home_entries tbl' sl
         \<and> map fst Home_icons = [''email'', ''linkedin'']"
proof -
  have r: "Home_entries t sl = replicate (length (populated_keys sl)) (Elem ''div'' [] [])" for t
    unfolding Home_entries_def Home_entries_replicate length_filter_Object_keys
    by (simp add: truthy_filter_keys [OF assms])
  have "\<not> list_ex (mentions [''Link'', ''a'', ''Mail'', ''Github'', ''Linkedin''])
          (replicate n (Elem ''div'' [] []))" for n
    by (induction n) simp_all
  then show ?thesis
    by (simp add: r Home_icons_def)
qed

theorem Home_renders_empty_placeholders_witness:
  "distinct (map fst config_socials)
   \<and> Home_entries Home_icons config_socials
       = [Elem ''div'' [] [], Elem ''div'' [] [], Elem ''div'' [] []]
   \<and> Home_entries Home_icons config_socials = Home_entries [] config_socials"
proof -
  have d: "distinct (map fst config_socials)"
    by (simp add: config_socials_def)
  have n: "length (populated_keys config_socials) = 3"
    by (simp add: populated_keys_def config_socials_def)
  note h = Home_renders_empty_placeholders [OF d, of Home_icons "[]"]
  from h n have a: "Home_entries Home_icons config_socials
      = [Elem ''div'' [] [], Elem ''div'' [] [], Elem ''div'' [] []]"
    by (simp add: numeral_3_eq_3)
  from h have b: "Home_entries Home_icons config_socials = Home_entries [] config_socials"
    by blast
  from d a b show ?thesis
    by blast
qed

section \<open>Drafts\<close>

text \<open>
  C7. A post whose front matter has \<^verbatim>\<open>draft: true\<close> is in no published listing; a post
  with \<^verbatim>\<open>draft: false\<close>, or with no \<^verbatim>\<open>draft\<close> field, is in the published listing of any
  collection that contains it.
\<close>

theorem draft_excluded_from_published_listing:
  "(draft p = Some True \<longrightarrow> p \<notin> set (published_listing ps))
   \<and> ((draft p = Some False \<or> draft p = None) \<and> p \<in> set ps
        \<longrightarrow> p \<in> set (published_listing ps))"
  by (auto simp: published_listing_def is_draft_def)

theorem draft_excluded_from_published_listing_witness:
  "draft (context_caching\<lparr>draft := Some True\<rparr>) = Some True
   \<and> context_caching\<lparr>draft := Some True\<rparr>
       \<notin> set (published_listing (context_caching\<lparr>draft := Some True\<rparr> # posts))
   \<and> draft context_caching = Some False \<and> context_caching \<in> set posts
   \<and> context_caching \<in> set (published_listing posts)
   \<and> draft (context_caching\<lparr>draft := None\<rparr>) = None
   \<and> context_caching\<lparr>draft := None\<rparr>
       \<in> set (published_listing [context_caching\<lparr>draft := None\<rparr>])"
  using draft_excluded_from_published_listing
          [of "context_caching\<lparr>draft := Some True\<rparr>"
              "context_caching\<lparr>draft := Some True\<rparr> # posts"]
        draft_excluded_from_published_listing [of context_caching posts]
        draft_excluded_from_published_listing
          [of "context_caching\<lparr>draft := None\<rparr>" "[context_caching\<lparr>draft := None\<rparr>]"]
  by (simp add: posts_def context_caching_def)

end
